theory Spec2Isabelle
  imports Complex_Main "HOL-Library.Word"
begin

unbundle bit_operations_syntax

section \<open>Values\<close>

text \<open>
  A JavaScript \<^verbatim>\<open>number\<close> is modelled as a real: the arithmetic of the source
  (\<^verbatim>\<open>value / 127 * 2\<close>, the clamps, the halo scale) is read over the reals, so rounding,
  NaN and the infinities of IEEE doubles are outside the model. A string is a list of
  8-bit characters, each standing for one code unit below 256.
\<close>

type_synonym number = real

subsection \<open>The shared types (\<^verbatim>\<open>../types\<close>)\<close>

text \<open>
  \<^verbatim>\<open>Prompt\<close> and \<^verbatim>\<open>ControlChange\<close> are imported as types only; their fields are the
  ones the sources read and write (\<^verbatim>\<open>{promptId, text, weight, cc, color}\<close> in
  \<^verbatim>\<open>dispatchPromptChange\<close> and \<^verbatim>\<open>buildInitialPresets\<close>, \<^verbatim>\<open>{cc, value, channel}\<close> in
  \<^verbatim>\<open>MidiDispatcher\<close>). The field \<^verbatim>\<open>text\<close> is written \<open>prompt_text\<close> and the fields of a
  control change carry the prefix \<open>msg_\<close>.
\<close>

record Prompt =
  promptId :: string
  prompt_text :: string
  weight :: number
  cc :: number
  color :: string

record ControlChange =
  msg_cc :: number
  msg_value :: number
  msg_channel :: number

section \<open>MidiDispatcher\<close>

text \<open>
  The handler that \<^verbatim>\<open>getMidiAccess\<close> installs on every input. \<open>input_id\<close> is the id of the
  input the handler belongs to, \<open>data\<close> the event's \<^verbatim>\<open>Uint8Array\<close> (or \<open>None\<close> when the
  event has no data). The result is what the handler dispatches as \<^verbatim>\<open>cc-message\<close>.
  A control-change status byte followed by fewer than two data bytes would dispatch a
  detail with undefined fields; the platform delivers complete messages, and the model
  marks this case \<open>Incomplete\<close> and follows it no further.
\<close>

datatype dispatched = Nothing | CCMessage ControlChange | Incomplete

definition onmidimessage :: "string option \<Rightarrow> string \<Rightarrow> 8 word list option \<Rightarrow> dispatched" where
  "onmidimessage activeMidiInputId input_id data =
     (if Some input_id \<noteq> activeMidiInputId then Nothing
      else case data of
        None \<Rightarrow> Nothing
      | Some [] \<Rightarrow> Nothing
      | Some (statusByte # rest) \<Rightarrow>
          (let channel = statusByte AND 0x0f;
               messageType = statusByte AND 0xf0;
               isControlChange = (messageType = 0xb0)
           in if \<not> isControlChange then Nothing
              else case rest of
                d1 # d2 # _ \<Rightarrow>
                  CCMessage \<lparr>msg_cc = real (unat d1), msg_value = real (unat d2),
                             msg_channel = real (unat channel)\<rparr>
              | _ \<Rightarrow> Incomplete))"

section \<open>WeightKnob\<close>

definition MIN_HALO_SCALE :: number where "MIN_HALO_SCALE = 1"
definition MAX_HALO_SCALE :: number where "MAX_HALO_SCALE = 2"
definition HALO_LEVEL_MODIFIER :: number where "HALO_LEVEL_MODIFIER = 1"

text \<open>
  The knob's properties \<^verbatim>\<open>value\<close>, \<^verbatim>\<open>color\<close> and \<^verbatim>\<open>audioLevel\<close> are written with the
  prefix \<open>knob_\<close>. \<open>dragging\<close> stands for the two window listeners that
  \<^verbatim>\<open>handlePointerDown\<close> adds and \<^verbatim>\<open>handlePointerUp\<close> removes.
\<close>

record WeightKnob =
  knob_value :: number
  knob_color :: string
  knob_audioLevel :: number
  dragStartPos :: number
  dragStartValue :: number
  dragging :: bool

text \<open>Each handler returns the knob and the details of the \<^verbatim>\<open>input\<close> events it dispatched.\<close>

definition handlePointerDown :: "number \<Rightarrow> WeightKnob \<Rightarrow> WeightKnob" where
  "handlePointerDown clientY k =
     k\<lparr>dragStartPos := clientY, dragStartValue := knob_value k, dragging := True\<rparr>"

definition handlePointerMove :: "number \<Rightarrow> WeightKnob \<Rightarrow> WeightKnob \<times> number list" where
  "handlePointerMove clientY k =
     (let delta = dragStartPos k - clientY;
          k1 = k\<lparr>knob_value := dragStartValue k + delta * 0.01\<rparr>;
          k2 = k1\<lparr>knob_value := max 0 (min 2 (knob_value k1))\<rparr>
      in (k2, [knob_value k2]))"

definition handlePointerUp :: "WeightKnob \<Rightarrow> WeightKnob" where
  "handlePointerUp k = k\<lparr>dragging := False\<rparr>"

definition handleWheel :: "number \<Rightarrow> WeightKnob \<Rightarrow> WeightKnob \<times> number list" where
  "handleWheel deltaY k =
     (let delta = deltaY;
          k1 = k\<lparr>knob_value := knob_value k + delta * (- 0.0025)\<rparr>;
          k2 = k1\<lparr>knob_value := max 0 (min 2 (knob_value k1))\<rparr>
      in (k2, [knob_value k2]))"

text \<open>
  A \<^verbatim>\<open>pointermove\<close> on the window reaches the knob only while its listener is
  registered.
\<close>

definition window_pointermove :: "number \<Rightarrow> WeightKnob \<Rightarrow> WeightKnob \<times> number list" where
  "window_pointermove clientY k = (if dragging k then handlePointerMove clientY k else (k, []))"

text \<open>
  The halo part of \<^verbatim>\<open>render\<close>: the style map of the \<^verbatim>\<open>#halo\<close> element, with the number
  that is printed into \<^verbatim>\<open>transform: scale(...)\<close>.
\<close>

record haloStyle =
  display :: string
  background :: string
  scale :: number

definition WeightKnob_render :: "WeightKnob \<Rightarrow> haloStyle" where
  "WeightKnob_render k =
     (let scale0 = (knob_value k / 2) * (MAX_HALO_SCALE - MIN_HALO_SCALE);
          scale1 = scale0 + MIN_HALO_SCALE;
          scale2 = scale1 + knob_audioLevel k * HALO_LEVEL_MODIFIER
      in \<lparr>display = (if knob_value k > 0 then ''block'' else ''none''),
          background = knob_color k,
          scale = scale2\<rparr>)"

section \<open>PromptController\<close>

text \<open>
  The controller has the five fields of a \<open>Prompt\<close> and its own. \<open>textContent\<close> is the
  text of the \<^verbatim>\<open>#text\<close> element (\<open>None\<close> for \<^verbatim>\<open>null\<close>), \<open>weightInput\<close> the knob it
  renders.
\<close>

record PromptController = Prompt +
  filtered :: bool
  channel :: number
  learnMode :: bool
  showCC :: bool
  audioLevel :: number
  lastValidText :: string
  textContent :: "string option"
  weightInput :: WeightKnob

text \<open>The detail of the \<^verbatim>\<open>prompt-changed\<close> event the controller dispatches.\<close>

definition dispatchPromptChange :: "PromptController \<Rightarrow> Prompt" where
  "dispatchPromptChange c =
     \<lparr>promptId = promptId c, prompt_text = prompt_text c, weight = weight c, cc = cc c,
      color = color c\<rparr>"

text \<open>
  The listener that \<^verbatim>\<open>connectedCallback\<close> registers for \<^verbatim>\<open>cc-message\<close>. It returns the
  controller and the \<^verbatim>\<open>prompt-changed\<close> details dispatched, in order.
\<close>

definition cc_message_listener :: "ControlChange \<Rightarrow> PromptController \<Rightarrow> PromptController \<times> Prompt list" where
  "cc_message_listener e c =
     (if learnMode c then
        (let c' = c\<lparr>cc := msg_cc e, channel := msg_channel e, learnMode := False\<rparr>
         in (c', [dispatchPromptChange c']))
      else if msg_cc e = cc c then
        (let c' = c\<lparr>weight := (msg_value e / 127) * 2\<rparr>
         in (c', [dispatchPromptChange c']))
      else (c, []))"

definition firstUpdated :: "PromptController \<Rightarrow> PromptController" where
  "firstUpdated c = c\<lparr>textContent := Some (prompt_text c), lastValidText := prompt_text c\<rparr>"

text \<open>
  \<^verbatim>\<open>update\<close>, after the first render (the \<^verbatim>\<open>#text\<close> element exists); \<open>changed\<close> holds the
  names of the changed properties.
\<close>

definition update :: "string set \<Rightarrow> PromptController \<Rightarrow> PromptController" where
  "update changed c =
     (let c1 = (if ''showCC'' \<in> changed \<and> \<not> showCC c then c\<lparr>learnMode := False\<rparr> else c)
      in if ''text'' \<in> changed then c1\<lparr>textContent := Some (prompt_text c1)\<rparr> else c1)"

definition resetText :: "PromptController \<Rightarrow> PromptController" where
  "resetText c = c\<lparr>prompt_text := lastValidText c, textContent := Some (lastValidText c)\<rparr>"

text \<open>
  \<^verbatim>\<open>String.prototype.trim\<close> removes white space and line terminators from both ends;
  of these, the code units below 256 are TAB, LF, VT, FF, CR, SP and NBSP.
\<close>

definition isWhiteSpace :: "char \<Rightarrow> bool" where
  "isWhiteSpace ch = (ch \<in> set [CHR 0x09, CHR 0x0A, CHR 0x0B, CHR 0x0C, CHR 0x0D, CHR 0x20, CHR 0xA0])"

definition trim :: "string \<Rightarrow> string" where
  "trim s = rev (dropWhile isWhiteSpace (rev (dropWhile isWhiteSpace s)))"

text \<open>
  \<^verbatim>\<open>updateText\<close>, the handler of \<^verbatim>\<open>blur\<close>. \<^verbatim>\<open>textContent?.trim()\<close> is undefined for a
  null text; undefined and the empty string are the falsy values of \<^verbatim>\<open>!newText\<close>.
\<close>

definition updateText :: "PromptController \<Rightarrow> PromptController \<times> Prompt list" where
  "updateText c =
     (let newText = map_option trim (textContent c);
          c' = (case newText of
                  None \<Rightarrow> resetText c
                | Some t \<Rightarrow> if t = [] then resetText c
                            else c\<lparr>prompt_text := t, lastValidText := t\<rparr>)
      in (c', [dispatchPromptChange c']))"

definition updateWeight :: "PromptController \<Rightarrow> PromptController \<times> Prompt list" where
  "updateWeight c =
     (let c' = c\<lparr>weight := knob_value (weightInput c)\<rparr>
      in (c', [dispatchPromptChange c']))"

definition toggleLearnMode :: "PromptController \<Rightarrow> PromptController" where
  "toggleLearnMode c = c\<lparr>learnMode := \<not> learnMode c\<rparr>"

text \<open>
  The properties \<^verbatim>\<open>render\<close> passes to the knob: the weight, and grey and a silent level
  for a filtered prompt.
\<close>

definition PromptController_render :: "PromptController \<Rightarrow> PromptController" where
  "PromptController_render c =
     c\<lparr>weightInput := (weightInput c)
          \<lparr>knob_value := weight c,
           knob_color := (if filtered c then ''#888'' else color c),
           knob_audioLevel := (if filtered c then 0 else audioLevel c)\<rparr>\<rparr>"

text \<open>
  The \<^verbatim>\<open>@input\<close> binding of \<^verbatim>\<open>render\<close>: every \<^verbatim>\<open>input\<close> event of the knob calls
  \<^verbatim>\<open>updateWeight\<close>. A wheel event on the knob, and a pointer move during a drag:
\<close>

definition knob_wheel :: "number \<Rightarrow> PromptController \<Rightarrow> PromptController \<times> Prompt list" where
  "knob_wheel deltaY c =
     (let (k, inputs) = handleWheel deltaY (weightInput c)
      in updateWeight (c\<lparr>weightInput := k\<rparr>))"

definition knob_pointermove :: "number \<Rightarrow> PromptController \<Rightarrow> PromptController \<times> Prompt list" where
  "knob_pointermove clientY c =
     (case window_pointermove clientY (weightInput c) of
        (k, []) \<Rightarrow> (c\<lparr>weightInput := k\<rparr>, [])
      | (k, _ # _) \<Rightarrow> updateWeight (c\<lparr>weightInput := k\<rparr>))"

subsection \<open>The controllers of one grid\<close>

text \<open>
  \<^verbatim>\<open>renderPrompts\<close> creates one controller per prompt, all listening to the same
  dispatcher. A click on the \<^verbatim>\<open>#midi\<close> element of the \<open>i\<close>-th controller calls its
  \<^verbatim>\<open>toggleLearnMode\<close>; a \<^verbatim>\<open>cc-message\<close> runs every controller's listener in turn.
\<close>

definition click_midi :: "nat \<Rightarrow> PromptController list \<Rightarrow> PromptController list" where
  "click_midi i grid = (if i < length grid then grid[i := toggleLearnMode (grid ! i)] else grid)"

definition dispatch_cc_message :: "ControlChange \<Rightarrow> PromptController list \<Rightarrow> PromptController list \<times> Prompt list" where
  "dispatch_cc_message e grid =
     (map (\<lambda>c. fst (cc_message_listener e c)) grid,
      concat (map (\<lambda>c. snd (cc_message_listener e c)) grid))"

text \<open>The positions of the controllers that are in learn mode.\<close>

definition learning :: "PromptController list \<Rightarrow> nat list" where
  "learning grid = filter (\<lambda>i. learnMode (grid ! i)) [0 ..< length grid]"

section \<open>Platform: \<^verbatim>\<open>Map\<close>, objects and JSON\<close>

subsection \<open>\<^verbatim>\<open>Map\<close>\<close>

text \<open>
  A \<^verbatim>\<open>Map\<close> is the list of its entries in insertion order, with distinct keys.
  \<^verbatim>\<open>set\<close> on a key that is present replaces the value and keeps the position;
  \<^verbatim>\<open>new Map(entries)\<close> sets the entries one after the other on an empty map;
  \<^verbatim>\<open>keys().next().value\<close> is the first key, undefined (\<open>None\<close>) on an empty map.
\<close>

definition Map_get :: "('k \<times> 'v) list \<Rightarrow> 'k \<Rightarrow> 'v option" where
  "Map_get m k = map_of m k"

definition Map_has :: "('k \<times> 'v) list \<Rightarrow> 'k \<Rightarrow> bool" where
  "Map_has m k = (map_of m k \<noteq> None)"

fun Map_set :: "'k \<Rightarrow> 'v \<Rightarrow> ('k \<times> 'v) list \<Rightarrow> ('k \<times> 'v) list" where
  "Map_set k v [] = [(k, v)]"
| "Map_set k v (e # m) = (if fst e = k then (k, v) # m else e # Map_set k v m)"

definition Map_delete :: "'k \<Rightarrow> ('k \<times> 'v) list \<Rightarrow> ('k \<times> 'v) list" where
  "Map_delete k m = filter (\<lambda>e. fst e \<noteq> k) m"

definition new_Map :: "('k \<times> 'v) list \<Rightarrow> ('k \<times> 'v) list" where
  "new_Map entries = foldl (\<lambda>m e. Map_set (fst e) (snd e) m) [] entries"

definition first_key :: "('k \<times> 'v) list \<Rightarrow> 'k option" where
  "first_key m = (case m of [] \<Rightarrow> None | e # _ \<Rightarrow> Some (fst e))"

subsection \<open>JSON values and plain objects\<close>

datatype json =
  JNull
| JBool bool
| JNum number
| JStr string
| JArr "json list"
| JObj "(string \<times> json) list"

text \<open>
  The own properties of a plain object are enumerated with the array indices first, in
  ascending order, and the other keys after them in the order of their creation. An
  array index is the canonical decimal numeral of a number below \<open>2^32 - 1\<close>.
\<close>

definition digit_of :: "char \<Rightarrow> nat option" where
  "digit_of ch = (let n = (of_char ch :: nat) in if 48 \<le> n \<and> n \<le> 57 then Some (n - 48) else None)"

definition is_digit :: "char \<Rightarrow> bool" where
  "is_digit ch = (digit_of ch \<noteq> None)"

definition nat_of_digits :: "string \<Rightarrow> nat" where
  "nat_of_digits ds = foldl (\<lambda>a ch. 10 * a + (case digit_of ch of None \<Rightarrow> 0 | Some d \<Rightarrow> d)) 0 ds"

definition array_index :: "string \<Rightarrow> nat option" where
  "array_index s =
     (if s = [] \<or> \<not> list_all is_digit s \<or> (hd s = CHR ''0'' \<and> length s > 1) \<or> length s > 10 then None
      else if nat_of_digits s < 2 ^ 32 - 1 then Some (nat_of_digits s) else None)"

definition own_order :: "(string \<times> 'v) list \<Rightarrow> (string \<times> 'v) list" where
  "own_order ps =
     sort_key (\<lambda>p. case array_index (fst p) of None \<Rightarrow> 0 | Some i \<Rightarrow> i)
       (filter (\<lambda>p. array_index (fst p) \<noteq> None) ps)
     @ filter (\<lambda>p. array_index (fst p) = None) ps"

text \<open>
  \<^verbatim>\<open>obj[name] = v\<close> on an object created by \<^verbatim>\<open>{}\<close>, given its own properties in creation
  order. The object inherits the accessor \<^verbatim>\<open>__proto__\<close> of \<^verbatim>\<open>Object.prototype\<close>: an
  assignment under that name calls the setter, which changes the prototype (when \<open>v\<close>
  is an object or null) and creates no own property. Every other name creates the own
  property or replaces its value.
\<close>

definition assign_property :: "string \<Rightarrow> json \<Rightarrow> (string \<times> json) list \<Rightarrow> (string \<times> json) list" where
  "assign_property name v ps = (if name = ''__proto__'' then ps else Map_set name v ps)"

subsection \<open>\<^verbatim>\<open>JSON.stringify\<close>\<close>

definition hex_char :: "nat \<Rightarrow> char" where
  "hex_char n = (if n < 10 then char_of (48 + n) else char_of (87 + n))"

text \<open>\<^verbatim>\<open>QuoteJSONString\<close>, on code units below 256.\<close>

definition quote_char :: "char \<Rightarrow> string" where
  "quote_char ch =
     (if ch = CHR 0x08 then [CHR 0x5C, CHR ''b'']
      else if ch = CHR 0x09 then [CHR 0x5C, CHR ''t'']
      else if ch = CHR 0x0A then [CHR 0x5C, CHR ''n'']
      else if ch = CHR 0x0C then [CHR 0x5C, CHR ''f'']
      else if ch = CHR 0x0D then [CHR 0x5C, CHR ''r'']
      else if ch = CHR 0x22 then [CHR 0x5C, CHR 0x22]
      else if ch = CHR 0x5C then [CHR 0x5C, CHR 0x5C]
      else if (of_char ch :: nat) < 32
        then [CHR 0x5C, CHR ''u'', CHR ''0'', CHR ''0'',
              hex_char ((of_char ch :: nat) div 16), hex_char ((of_char ch :: nat) mod 16)]
      else [ch])"

definition quote :: "string \<Rightarrow> string" where
  "quote s = [CHR 0x22] @ concat (map quote_char s) @ [CHR 0x22]"

fun join :: "string \<Rightarrow> string list \<Rightarrow> string" where
  "join sep [] = []"
| "join sep [x] = x"
| "join sep (x # y # ys) = x @ sep @ join sep (y # ys)"

text \<open>
  \<open>nts\<close> is \<^verbatim>\<open>Number::toString\<close>, the decimal text of a double, which has no counterpart
  on the reals; it is a parameter of everything that prints a number.
\<close>

fun JSON_stringify :: "(number \<Rightarrow> string) \<Rightarrow> json \<Rightarrow> string" where
  "JSON_stringify nts JNull = ''null''"
| "JSON_stringify nts (JBool b) = (if b then ''true'' else ''false'')"
| "JSON_stringify nts (JNum n) = nts n"
| "JSON_stringify nts (JStr s) = quote s"
| "JSON_stringify nts (JArr xs) = ''['' @ join '','' (map (JSON_stringify nts) xs) @ '']''"
| "JSON_stringify nts (JObj ps) =
     ''{'' @ join '','' (map (\<lambda>p. quote (fst p) @ '':'' @ JSON_stringify nts (snd p)) ps) @ ''}''"

subsection \<open>\<^verbatim>\<open>JSON.parse\<close>\<close>

text \<open>
  What a call can end with other than a value: the \<^verbatim>\<open>SyntaxError\<close> that \<^verbatim>\<open>JSON.parse\<close>
  throws, the \<^verbatim>\<open>TypeError\<close> that \<^verbatim>\<open>new Map\<close> throws, or \<open>Unmodelled\<close>, where this
  model stops: a string with a code unit above 255, data that is not of the declared
  TypeScript type and goes on unchecked, or a parser out of fuel.
\<close>

datatype failure = SyntaxError | TypeError | Unmodelled

definition is_ws :: "char \<Rightarrow> bool" where
  "is_ws ch = (ch \<in> set [CHR 0x20, CHR 0x09, CHR 0x0A, CHR 0x0D])"

definition skip_ws :: "string \<Rightarrow> string" where
  "skip_ws s = dropWhile is_ws s"

definition hex_of :: "char \<Rightarrow> nat option" where
  "hex_of ch =
     (let n = (of_char ch :: nat)
      in if 48 \<le> n \<and> n \<le> 57 then Some (n - 48)
         else if 97 \<le> n \<and> n \<le> 102 then Some (n - 87)
         else if 65 \<le> n \<and> n \<le> 70 then Some (n - 55)
         else None)"

definition unescape :: "char \<Rightarrow> char option" where
  "unescape ch =
     (if ch = CHR 0x22 then Some (CHR 0x22)
      else if ch = CHR 0x5C then Some (CHR 0x5C)
      else if ch = CHR ''/'' then Some (CHR ''/'')
      else if ch = CHR ''b'' then Some (CHR 0x08)
      else if ch = CHR ''f'' then Some (CHR 0x0C)
      else if ch = CHR ''n'' then Some (CHR 0x0A)
      else if ch = CHR ''r'' then Some (CHR 0x0D)
      else if ch = CHR ''t'' then Some (CHR 0x09)
      else None)"

text \<open>The characters of a string literal after its opening quote, up to the closing one.\<close>

fun parse_chars :: "string \<Rightarrow> string \<Rightarrow> failure + (string \<times> string)" where
  "parse_chars [] acc = Inl SyntaxError"
| "parse_chars [ch] acc = (if ch = CHR 0x22 then Inr (rev acc, []) else Inl SyntaxError)"
| "parse_chars (ch # e # s) acc =
     (if ch = CHR 0x22 then Inr (rev acc, e # s)
      else if ch = CHR 0x5C then
        (if e = CHR ''u'' then
           (case s of
              h1 # h2 # h3 # h4 # s' \<Rightarrow>
                (case (hex_of h1, hex_of h2, hex_of h3, hex_of h4) of
                   (Some a, Some b, Some c, Some d) \<Rightarrow>
                     (if a = 0 \<and> b = 0 then parse_chars s' (char_of (16 * c + d) # acc)
                      else Inl Unmodelled)
                 | _ \<Rightarrow> Inl SyntaxError)
            | _ \<Rightarrow> Inl SyntaxError)
         else (case unescape e of
                 None \<Rightarrow> Inl SyntaxError
               | Some u \<Rightarrow> parse_chars s (u # acc)))
      else if (of_char ch :: nat) < 32 then Inl SyntaxError
      else parse_chars (e # s) (ch # acc))"

text \<open>
  A number: \<^verbatim>\<open>-? (0 | [1-9][0-9]*) (. [0-9]+)? ([eE] [+-]? [0-9]+)?\<close>, read as the real
  it denotes.
\<close>

definition parse_number :: "string \<Rightarrow> failure + (number \<times> string)" where
  "parse_number s =
     (let neg = (s \<noteq> [] \<and> hd s = CHR ''-'');
          s1 = (if neg then tl s else s);
          ip = (if s1 \<noteq> [] \<and> hd s1 = CHR ''0'' then ''0'' else takeWhile is_digit s1);
          s2 = drop (length ip) s1;
          has_frac = (s2 \<noteq> [] \<and> hd s2 = CHR ''.'');
          fp = (if has_frac then takeWhile is_digit (tl s2) else []);
          s3 = (if has_frac then drop (length fp) (tl s2) else s2);
          has_exp = (s3 \<noteq> [] \<and> (hd s3 = CHR ''e'' \<or> hd s3 = CHR ''E''));
          s4 = (if has_exp then tl s3 else s3);
          eneg = (has_exp \<and> s4 \<noteq> [] \<and> hd s4 = CHR ''-'');
          s5 = (if has_exp \<and> s4 \<noteq> [] \<and> (hd s4 = CHR ''-'' \<or> hd s4 = CHR ''+'') then tl s4 else s4);
          ep = (if has_exp then takeWhile is_digit s5 else []);
          s6 = drop (length ep) s5;
          m = real (nat_of_digits ip) + real (nat_of_digits fp) / 10 ^ length fp;
          x = (if eneg then m / 10 ^ nat_of_digits ep else m * 10 ^ nat_of_digits ep)
      in if ip = [] \<or> (has_frac \<and> fp = []) \<or> (has_exp \<and> ep = []) then Inl SyntaxError
         else Inr (if neg then - x else x, s6))"

definition literal :: "string \<Rightarrow> json \<Rightarrow> string \<Rightarrow> failure + (json \<times> string)" where
  "literal w v s = (if take (length w) s = w then Inr (v, drop (length w) s) else Inl SyntaxError)"

text \<open>
  The object a member list denotes: each member defines the property of its name
  (a repeated name replaces the value), and the properties are kept in the order an
  enumeration gives them.
\<close>

definition object_of :: "(string \<times> json) list \<Rightarrow> json" where
  "object_of members = JObj (own_order (new_Map members))"

text \<open>
  The recursive descent, with fuel. Every call uses one unit; a call of \<open>parse_value\<close>
  that calls on has read an opening bracket, and \<open>parse_elements\<close> and \<open>parse_members\<close>
  are called after an opening bracket or a comma, so no chain of calls is longer than
  twice the length of the text plus one.
\<close>

fun parse_value :: "nat \<Rightarrow> string \<Rightarrow> failure + (json \<times> string)"
  and parse_elements :: "nat \<Rightarrow> string \<Rightarrow> json list \<Rightarrow> failure + (json \<times> string)"
  and parse_members :: "nat \<Rightarrow> string \<Rightarrow> (string \<times> json) list \<Rightarrow> failure + (json \<times> string)" where
  "parse_value 0 s = Inl Unmodelled"
| "parse_value (Suc n) s =
     (case skip_ws s of
        [] \<Rightarrow> Inl SyntaxError
      | ch # r \<Rightarrow>
          if ch = CHR ''{'' then
            (case skip_ws r of
               [] \<Rightarrow> Inl SyntaxError
             | ch' # r' \<Rightarrow> if ch' = CHR ''}'' then Inr (JObj [], r') else parse_members n r [])
          else if ch = CHR ''['' then
            (case skip_ws r of
               [] \<Rightarrow> Inl SyntaxError
             | ch' # r' \<Rightarrow> if ch' = CHR '']'' then Inr (JArr [], r') else parse_elements n r [])
          else if ch = CHR 0x22 then
            (case parse_chars r [] of Inl f \<Rightarrow> Inl f | Inr (str, r') \<Rightarrow> Inr (JStr str, r'))
          else if ch = CHR ''t'' then literal ''true'' (JBool True) (ch # r)
          else if ch = CHR ''f'' then literal ''false'' (JBool False) (ch # r)
          else if ch = CHR ''n'' then literal ''null'' JNull (ch # r)
          else (case parse_number (ch # r) of Inl f \<Rightarrow> Inl f | Inr (x, r') \<Rightarrow> Inr (JNum x, r')))"
| "parse_elements 0 s acc = Inl Unmodelled"
| "parse_elements (Suc n) s acc =
     (case parse_value n s of
        Inl f \<Rightarrow> Inl f
      | Inr (v, r) \<Rightarrow>
          (case skip_ws r of
             [] \<Rightarrow> Inl SyntaxError
           | ch # r' \<Rightarrow>
               if ch = CHR '','' then parse_elements n r' (v # acc)
               else if ch = CHR '']'' then Inr (JArr (rev (v # acc)), r')
               else Inl SyntaxError))"
| "parse_members 0 s acc = Inl Unmodelled"
| "parse_members (Suc n) s acc =
     (case skip_ws s of
        [] \<Rightarrow> Inl SyntaxError
      | q # r \<Rightarrow>
          if q \<noteq> CHR 0x22 then Inl SyntaxError
          else (case parse_chars r [] of
                  Inl f \<Rightarrow> Inl f
                | Inr (k, r1) \<Rightarrow>
                    (case skip_ws r1 of
                       [] \<Rightarrow> Inl SyntaxError
                     | colon # r2 \<Rightarrow>
                         if colon \<noteq> CHR '':'' then Inl SyntaxError
                         else (case parse_value n r2 of
                                 Inl f \<Rightarrow> Inl f
                               | Inr (v, r3) \<Rightarrow>
                                   (case skip_ws r3 of
                                      [] \<Rightarrow> Inl SyntaxError
                                    | ch # r4 \<Rightarrow>
                                        if ch = CHR '','' then parse_members n r4 ((k, v) # acc)
                                        else if ch = CHR ''}'' then Inr (object_of (rev ((k, v) # acc)), r4)
                                        else Inl SyntaxError)))))"

definition JSON_parse :: "string \<Rightarrow> failure + json" where
  "JSON_parse s =
     (case parse_value (Suc (length s + length s)) s of
        Inl f \<Rightarrow> Inl f
      | Inr (v, r) \<Rightarrow> if skip_ws r = [] then Inr v else Inl SyntaxError)"

section \<open>PromptDjMidi\<close>

text \<open>
  The \<^verbatim>\<open>Prompt\<close> objects live in a store, \<open>objects\<close>; a reference is an index into it.
  A \<^verbatim>\<open>Map<string, Prompt>\<close> holds references, so two maps can share a prompt object
  and see each other's writes to it. The maps themselves are values: the source
  changes a map in place only while nothing else refers to it (\<^verbatim>\<open>this.presets\<close>, and
  the fresh map of \<^verbatim>\<open>handlePromptChanged\<close>).
\<close>

type_synonym ref = nat
type_synonym PromptMap = "(string \<times> ref) list"
type_synonym PresetMap = "(string \<times> PromptMap) list"

datatype event = PromptsChanged PromptMap | PlayPause | ErrorEvent string

text \<open>
  \<open>localStorage\<close> is the item stored under \<^verbatim>\<open>PRESETS_STORAGE_KEY\<close> (\<open>None\<close> when there is
  none), \<open>events\<close> the events dispatched so far and \<open>alerts\<close> the messages shown with
  \<^verbatim>\<open>window.alert\<close>, both oldest first. \<open>activePresetName\<close> is \<open>None\<close> for undefined, the
  first key of an empty map of defaults.
\<close>

record PromptDjMidi =
  objects :: "Prompt list"
  presets :: PresetMap
  activePresetName :: "string option"
  defaultPresets :: PresetMap
  prompts :: PromptMap
  localStorage :: "string option"
  events :: "event list"
  alerts :: "string list"

definition PromptDjMidi_new :: "Prompt list \<Rightarrow> string option \<Rightarrow> PresetMap \<Rightarrow> PromptDjMidi" where
  "PromptDjMidi_new heap stored defaults =
     (let name = first_key defaults
      in \<lparr>objects = heap, presets = [], activePresetName = name, defaultPresets = defaults,
          prompts = new_Map (case name of
                               None \<Rightarrow> []
                             | Some n \<Rightarrow> (case Map_get defaults n of None \<Rightarrow> [] | Some m \<Rightarrow> m)),
          localStorage = stored, events = [], alerts = []\<rparr>)"

text \<open>A prompt object as \<^verbatim>\<open>JSON.stringify\<close> sees it, and as \<^verbatim>\<open>JSON.parse\<close> creates it.\<close>

definition prompt_json :: "Prompt \<Rightarrow> json" where
  "prompt_json p =
     JObj [(''promptId'', JStr (promptId p)), (''text'', JStr (prompt_text p)),
           (''weight'', JNum (weight p)), (''cc'', JNum (cc p)), (''color'', JStr (color p))]"

definition decode_prompt :: "json \<Rightarrow> Prompt option" where
  "decode_prompt j =
     (case j of
        JObj [(k1, JStr a), (k2, JStr b), (k3, JNum w), (k4, JNum n), (k5, JStr d)] \<Rightarrow>
          if [k1, k2, k3, k4, k5] = [''promptId'', ''text'', ''weight'', ''cc'', ''color'']
          then Some \<lparr>promptId = a, prompt_text = b, weight = w, cc = n, color = d\<rparr>
          else None
      | _ \<Rightarrow> None)"

definition serializePresets :: "(number \<Rightarrow> string) \<Rightarrow> Prompt list \<Rightarrow> PresetMap \<Rightarrow> string" where
  "serializePresets nts heap presets' =
     (let obj = foldl (\<lambda>obj (name, promptMap).
                   assign_property name
                     (JArr (map (\<lambda>(k, r). JArr [JStr k, prompt_json (heap ! r)]) promptMap)) obj)
                 [] presets'
      in JSON_stringify nts (JObj (own_order obj)))"

text \<open>
  \<^verbatim>\<open>new Map(obj[name])\<close> on a parsed value. The prompt objects that \<^verbatim>\<open>JSON.parse\<close> created
  are added to the store. An entry that is not an object, and a value that cannot be
  iterated, throw a \<^verbatim>\<open>TypeError\<close>; null and the empty string give an empty map.
\<close>

fun read_entries :: "Prompt list \<Rightarrow> json list \<Rightarrow> failure + (Prompt list \<times> (string \<times> ref) list)" where
  "read_entries heap [] = Inr (heap, [])"
| "read_entries heap (e # es) =
     (case e of
        JArr [JStr k, pj] \<Rightarrow>
          (case decode_prompt pj of
             None \<Rightarrow> Inl Unmodelled
           | Some p \<Rightarrow>
               (case read_entries (heap @ [p]) es of
                  Inl f \<Rightarrow> Inl f
                | Inr (heap', entries) \<Rightarrow> Inr (heap', (k, length heap) # entries)))
      | JArr _ \<Rightarrow> Inl Unmodelled
      | JObj _ \<Rightarrow> Inl Unmodelled
      | _ \<Rightarrow> Inl TypeError)"

definition read_Map :: "Prompt list \<Rightarrow> json \<Rightarrow> failure + (Prompt list \<times> PromptMap)" where
  "read_Map heap v =
     (case v of
        JNull \<Rightarrow> Inr (heap, [])
      | JStr str \<Rightarrow> if str = [] then Inr (heap, []) else Inl TypeError
      | JArr es \<Rightarrow>
          (case read_entries heap es of
             Inl f \<Rightarrow> Inl f
           | Inr (heap', entries) \<Rightarrow> Inr (heap', new_Map entries))
      | _ \<Rightarrow> Inl TypeError)"

fun read_presets :: "Prompt list \<Rightarrow> (string \<times> json) list \<Rightarrow> PresetMap \<Rightarrow> failure + (Prompt list \<times> PresetMap)" where
  "read_presets heap [] presets' = Inr (heap, presets')"
| "read_presets heap (p # ps) presets' =
     (case read_Map heap (snd p) of
        Inl f \<Rightarrow> Inl f
      | Inr (heap', m) \<Rightarrow> read_presets heap' ps (Map_set (fst p) m presets'))"

text \<open>
  The loop of \<^verbatim>\<open>deserializePresets\<close> runs over the own properties of the parsed value.
  The declared type is a record; for any other parsed value the model stops.
\<close>

definition deserializePresets :: "Prompt list \<Rightarrow> string \<Rightarrow> failure + (Prompt list \<times> PresetMap)" where
  "deserializePresets heap jsonString =
     (case JSON_parse jsonString of
        Inl f \<Rightarrow> Inl f
      | Inr (JObj ps) \<Rightarrow> read_presets heap ps []
      | Inr _ \<Rightarrow> Inl Unmodelled)"

definition savePresetsToStorage :: "(number \<Rightarrow> string) \<Rightarrow> PromptDjMidi \<Rightarrow> PromptDjMidi" where
  "savePresetsToStorage nts s =
     (let userPresets = foldl (\<lambda>u (name, presetMap).
                           if \<not> Map_has (defaultPresets s) name then Map_set name presetMap u else u)
                         [] (presets s)
      in s\<lparr>localStorage := Some (serializePresets nts (objects s) userPresets)\<rparr>)"

definition loadActivePreset :: "PromptDjMidi \<Rightarrow> PromptDjMidi" where
  "loadActivePreset s =
     (case (case activePresetName s of None \<Rightarrow> None | Some n \<Rightarrow> Map_get (presets s) n) of
        None \<Rightarrow> s
      | Some presetPrompts \<Rightarrow>
          (let s' = s\<lparr>prompts := new_Map presetPrompts\<rparr>
           in s'\<lparr>events := events s' @ [PromptsChanged (prompts s')]\<rparr>))"

text \<open>
  \<^verbatim>\<open>loadPresets\<close>, called by \<^verbatim>\<open>connectedCallback\<close>. An exception of
  \<^verbatim>\<open>deserializePresets\<close> leaves the method before anything is assigned: the component
  stays as it was, and the result is the failure.
\<close>

definition loadPresets :: "PromptDjMidi \<Rightarrow> failure + PromptDjMidi" where
  "loadPresets s =
     (case (case localStorage s of
              None \<Rightarrow> Inr (objects s, [])
            | Some storedPresets \<Rightarrow>
                if storedPresets = [] then Inr (objects s, [])
                else deserializePresets (objects s) storedPresets) of
        Inl f \<Rightarrow> Inl f
      | Inr (heap, userPresets) \<Rightarrow>
          Inr (loadActivePreset
                 (s\<lparr>objects := heap, presets := new_Map (defaultPresets s @ userPresets)\<rparr>)))"

definition handlePresetChange :: "string \<Rightarrow> PromptDjMidi \<Rightarrow> PromptDjMidi" where
  "handlePresetChange target_value s = loadActivePreset (s\<lparr>activePresetName := Some target_value\<rparr>)"

text \<open>
  \<open>answer\<close> is what \<^verbatim>\<open>window.prompt\<close> returns (\<open>None\<close> when the dialog is cancelled),
  \<open>confirmed\<close> what \<^verbatim>\<open>window.confirm\<close> returns if it is asked.
\<close>

definition saveCurrentPreset :: "(number \<Rightarrow> string) \<Rightarrow> string option \<Rightarrow> bool \<Rightarrow> PromptDjMidi \<Rightarrow> PromptDjMidi" where
  "saveCurrentPreset nts answer confirmed s =
     (case answer of
        None \<Rightarrow> s
      | Some name0 \<Rightarrow>
          if name0 = [] then s
          else let name = trim name0
               in if name = [] then s
                  else if Map_has (defaultPresets s) name then
                    s\<lparr>alerts := alerts s @
                       [''Cannot overwrite default preset '' @ [CHR 0x22] @ name @ [CHR 0x22] @
                        ''. Please choose a different name.'']\<rparr>
                  else if Map_has (presets s) name \<and> \<not> Map_has (defaultPresets s) name \<and> \<not> confirmed
                    then s
                  else savePresetsToStorage nts
                         (s\<lparr>presets := Map_set name (new_Map (prompts s)) (presets s),
                            activePresetName := Some name\<rparr>))"

definition deleteCurrentPreset :: "(number \<Rightarrow> string) \<Rightarrow> bool \<Rightarrow> PromptDjMidi \<Rightarrow> PromptDjMidi" where
  "deleteCurrentPreset nts confirmed s =
     (if (case activePresetName s of None \<Rightarrow> False | Some n \<Rightarrow> Map_has (defaultPresets s) n) then
        s\<lparr>alerts := alerts s @ [''Cannot delete a default preset.'']\<rparr>
      else if confirmed then
        savePresetsToStorage nts
          (loadActivePreset
             (s\<lparr>presets := (case activePresetName s of
                               None \<Rightarrow> presets s
                             | Some n \<Rightarrow> Map_delete n (presets s)),
                activePresetName := first_key (defaultPresets s)\<rparr>))
      else s)"

text \<open>
  \<^verbatim>\<open>handlePromptChanged\<close> writes the three fields into the prompt object the registry
  refers to, then replaces the registry by a fresh map with the same entries.
\<close>

definition handlePromptChanged :: "Prompt \<Rightarrow> PromptDjMidi \<Rightarrow> PromptDjMidi" where
  "handlePromptChanged detail s =
     (case Map_get (prompts s) (promptId detail) of
        None \<Rightarrow> s
      | Some prompt \<Rightarrow>
          (let heap = (objects s)[prompt := (objects s ! prompt)
                         \<lparr>prompt_text := prompt_text detail, weight := weight detail, cc := cc detail\<rparr>];
               newPrompts = Map_set (promptId detail) prompt (new_Map (prompts s));
               s' = s\<lparr>objects := heap, prompts := newPrompts\<rparr>
           in s'\<lparr>events := events s' @ [PromptsChanged (prompts s')]\<rparr>))"

text \<open>The prompts a map refers to, read from the store.\<close>

definition entries_of :: "Prompt list \<Rightarrow> PromptMap \<Rightarrow> (string \<times> Prompt) list" where
  "entries_of heap m = map (\<lambda>(k, r). (k, heap ! r)) m"

section \<open>Sample data\<close>

text \<open>
  The eighth prompt of the preset \<^verbatim>\<open>Ambient Dreams\<close> as \<^verbatim>\<open>buildInitialPresets\<close> creates it
  (\<^verbatim>\<open>cc\<close> is the index, the weight defaults to 0), its controller after the first render,
  and a second controller for the first prompt.
\<close>

definition sample_knob :: WeightKnob where
  "sample_knob = \<lparr>knob_value = 0, knob_color = ''#d9b2ff'', knob_audioLevel = 0,
                   dragStartPos = 0, dragStartValue = 0, dragging = False\<rparr>"

definition sample_controller :: PromptController where
  "sample_controller =
     \<lparr>promptId = ''prompt-7'', prompt_text = ''Glassy FM Synthesis'', weight = 0, cc = 7,
      color = ''#d9b2ff'', filtered = False, channel = 0, learnMode = False, showCC = True,
      audioLevel = 0, lastValidText = ''Glassy FM Synthesis'',
      textContent = Some ''Glassy FM Synthesis'', weightInput = sample_knob\<rparr>"

definition other_controller :: PromptController where
  "other_controller =
     \<lparr>promptId = ''prompt-0'', prompt_text = ''Lush Strings'', weight = 1, cc = 0,
      color = ''#3dffab'', filtered = False, channel = 0, learnMode = False, showCC = True,
      audioLevel = 0, lastValidText = ''Lush Strings'',
      textContent = Some ''Lush Strings'',
      weightInput = sample_knob\<lparr>knob_value := 1, knob_color := ''#3dffab''\<rparr>\<rparr>"

text \<open>
  A component with one default preset of one prompt, as \<^verbatim>\<open>connectedCallback\<close> leaves it
  when nothing is stored.
\<close>

definition sample_prompt :: Prompt where
  "sample_prompt = \<lparr>promptId = ''prompt-0'', prompt_text = ''Lush Strings'', weight = 1, cc = 0,
                     color = ''#3dffab''\<rparr>"

definition sample_defaults :: PresetMap where
  "sample_defaults = [(''Ambient Dreams'', [(''prompt-0'', 0)])]"

definition sample_state :: PromptDjMidi where
  "sample_state =
     \<lparr>objects = [sample_prompt], presets = sample_defaults,
      activePresetName = Some ''Ambient Dreams'', defaultPresets = sample_defaults,
      prompts = [(''prompt-0'', 0)], localStorage = None,
      events = [PromptsChanged [(''prompt-0'', 0)]], alerts = []\<rparr>"

section \<open>Properties\<close>

subsection \<open>Auxiliary facts\<close>

lemmas json_eval = JSON_parse_def skip_ws_def is_ws_def literal_def parse_number_def is_digit_def
  digit_of_def nat_of_digits_def object_of_def own_order_def new_Map_def array_index_def
  unescape_def hex_of_def

lemma dropWhile_all_Nil: "(\<forall>x\<in>set (dropWhile P xs). P x) \<longleftrightarrow> dropWhile P xs = []"
proof
  assume a: "\<forall>x\<in>set (dropWhile P xs). P x"
  show "dropWhile P xs = []"
  proof (rule ccontr)
    assume n: "dropWhile P xs \<noteq> []"
    then have "\<not> P (hd (dropWhile P xs))" by (rule hd_dropWhile)
    moreover have "hd (dropWhile P xs) \<in> set (dropWhile P xs)" using n by simp
    ultimately show False using a by blast
  qed
qed (auto dest: set_dropWhileD)

text \<open>\<open>trim\<close> leaves nothing exactly of the texts that are empty or all white space.\<close>

lemma trim_empty_iff: "trim s = [] \<longleftrightarrow> list_all isWhiteSpace s"
proof -
  have "trim s = [] \<longleftrightarrow> (\<forall>x\<in>set (dropWhile isWhiteSpace s). isWhiteSpace x)"
    by (simp add: trim_def dropWhile_eq_Nil_conv)
  also have "\<dots> \<longleftrightarrow> dropWhile isWhiteSpace s = []" by (rule dropWhile_all_Nil)
  also have "\<dots> \<longleftrightarrow> list_all isWhiteSpace s" by (simp add: dropWhile_eq_Nil_conv list_all_iff)
  finally show ?thesis .
qed

text \<open>\<^verbatim>\<open>new Map(m)\<close> of a map \<open>m\<close> has the entries of \<open>m\<close>, in the same order.\<close>

lemma Map_set_fresh: "k \<notin> fst ` set m \<Longrightarrow> Map_set k v m = m @ [(k, v)]"
  by (induction m) auto

lemma foldl_Map_set_distinct:
  "distinct (map fst (acc @ es)) \<Longrightarrow>
   foldl (\<lambda>m e. Map_set (fst e) (snd e) m) acc es = acc @ es"
proof (induction es arbitrary: acc)
  case Nil
  then show ?case by simp
next
  case (Cons e es)
  from Cons.prems have fresh: "fst e \<notin> fst ` set acc" by auto
  have "foldl (\<lambda>m e. Map_set (fst e) (snd e) m) acc (e # es)
          = foldl (\<lambda>m e. Map_set (fst e) (snd e) m) (acc @ [e]) es"
    using fresh by (simp add: Map_set_fresh)
  also have "\<dots> = (acc @ [e]) @ es"
    using Cons.prems by (intro Cons.IH) simp
  finally show ?case by simp
qed

lemma new_Map_distinct: "distinct (map fst m) \<Longrightarrow> new_Map m = m"
  unfolding new_Map_def using foldl_Map_set_distinct [of "[]" m] by simp

lemma learning_set: "set (learning grid) = {i. i < length grid \<and> learnMode (grid ! i)}"
  by (auto simp: learning_def)

text \<open>The sample component is what the constructor and \<^verbatim>\<open>connectedCallback\<close> produce.\<close>

lemma sample_state_reached:
  "loadPresets (PromptDjMidi_new [sample_prompt] None sample_defaults) = Inr sample_state"
  by (simp add: loadPresets_def PromptDjMidi_new_def sample_defaults_def sample_state_def
      first_key_def Map_get_def new_Map_def loadActivePreset_def)

text \<open>
  A three-byte message on the active input is dispatched exactly when the high nibble
  of its status byte is \<open>0xB\<close>, with the two data bytes as number and value; a message
  on any other input is dropped.
\<close>

lemma onmidimessage_control_change:
  "onmidimessage (Some i) i (Some [status, d1, d2]) =
     (if status AND 0xf0 = 0xb0
      then CCMessage \<lparr>msg_cc = real (unat d1), msg_value = real (unat d2),
                      msg_channel = real (unat (status AND 0x0f))\<rparr>
      else Nothing)"
  by (simp add: onmidimessage_def)

lemma onmidimessage_other_input: "active \<noteq> Some i \<Longrightarrow> onmidimessage active i data = Nothing"
  by (auto simp: onmidimessage_def)

text \<open>A control change ends the learn mode of every controller of the grid.\<close>

lemma no_knob_learning_after_cc_message: "learning (fst (dispatch_cc_message e grid)) = []"
  by (auto simp: learning_def dispatch_cc_message_def cc_message_listener_def filter_empty_conv
      Let_def)

text \<open>With no stored item, or an empty one, the store holds the default presets.\<close>

lemma loadPresets_without_stored_data:
  assumes "localStorage s = None \<or> localStorage s = Some []"
  shows "\<exists>s'. loadPresets s = Inr s' \<and> presets s' = new_Map (defaultPresets s)"
  using assms by (auto simp: loadPresets_def loadActivePreset_def split: option.splits)

text \<open>
  A preset under an ordinary name is written and read back: the text of the preset
  \<^verbatim>\<open>Mine\<close> with the sample prompt, and what \<^verbatim>\<open>deserializePresets\<close> makes of it (a new
  prompt object, equal to the one written).
\<close>

lemma sample_text_parses:
  "JSON_parse ''{\"Mine\":[[\"prompt-0\",{\"promptId\":\"prompt-0\",\"text\":\"Lush Strings\",\"weight\":1,\"cc\":0,\"color\":\"#3dffab\"}]]}''
     = Inr (JObj [(''Mine'', JArr [JArr [JStr ''prompt-0'',
              JObj [(''promptId'', JStr ''prompt-0''), (''text'', JStr ''Lush Strings''),
                    (''weight'', JNum 1), (''cc'', JNum 0), (''color'', JStr ''#3dffab'')]]])])"
  by code_simp

lemma ordinary_name_written:
  assumes "nts 1 = ''1''" and "nts 0 = ''0''"
  shows "serializePresets nts [sample_prompt] [(''Mine'', [(''prompt-0'', 0)])]
           = ''{\"Mine\":[[\"prompt-0\",{\"promptId\":\"prompt-0\",\"text\":\"Lush Strings\",\"weight\":1,\"cc\":0,\"color\":\"#3dffab\"}]]}''"
  using assms
  by (simp add: serializePresets_def assign_property_def own_order_def array_index_def
      is_digit_def digit_of_def sample_prompt_def prompt_json_def quote_def quote_char_def)

lemma ordinary_name_read_back:
  assumes "nts 1 = ''1''" and "nts 0 = ''0''"
  shows "deserializePresets [sample_prompt]
           (serializePresets nts [sample_prompt] [(''Mine'', [(''prompt-0'', 0)])])
           = Inr ([sample_prompt, sample_prompt], [(''Mine'', [(''prompt-0'', 1)])])"
  unfolding ordinary_name_written [OF assms]
  by (simp add: deserializePresets_def sample_text_parses read_Map_def decode_prompt_def
      new_Map_def sample_prompt_def)

subsection \<open>Control changes and the weight\<close>

text \<open>
  C5. A control change with a value in \<open>[0, 127]\<close> that reaches a controller outside learn
  mode: when its number is the controller's \<open>cc\<close>, the weight becomes \<open>value / 127 * 2\<close>
  and exactly one \<^verbatim>\<open>prompt-changed\<close> event is dispatched, carrying the new weight; when
  the number differs, the controller is unchanged and no event is dispatched.
\<close>

theorem cc_message_sets_weight:
  assumes "\<not> learnMode c" and "0 \<le> msg_value e" and "msg_value e \<le> 127"
  shows "cc_message_listener e c =
           (if msg_cc e = cc c
            then (c\<lparr>weight := msg_value e / 127 * 2\<rparr>,
                  [\<lparr>promptId = promptId c, prompt_text = prompt_text c,
                    weight = msg_value e / 127 * 2, cc = cc c, color = color c\<rparr>])
            else (c, []))"
  using assms by (simp add: cc_message_listener_def dispatchPromptChange_def)

text \<open>
  The message \<^verbatim>\<open>B0 07 40\<close> on the active input is the control change 7 with value 64; on
  a controller bound to 7 it sets the weight to \<open>64 / 127 * 2 = 128 / 127\<close> with one event,
  as control change 8 it does nothing; the values 0 and 127 give the weights 0 and 2.
\<close>

theorem cc_message_sets_weight_witness:
  "onmidimessage (Some ''in-1'') ''in-1'' (Some [0xB0, 7, 64])
     = CCMessage \<lparr>msg_cc = 7, msg_value = 64, msg_channel = 0\<rparr>
   \<and> \<not> learnMode sample_controller
   \<and> cc_message_listener \<lparr>msg_cc = 7, msg_value = 64, msg_channel = 0\<rparr> sample_controller
       = (sample_controller\<lparr>weight := 128 / 127\<rparr>,
          [\<lparr>promptId = ''prompt-7'', prompt_text = ''Glassy FM Synthesis'', weight = 128 / 127,
            cc = 7, color = ''#d9b2ff''\<rparr>])
   \<and> cc_message_listener \<lparr>msg_cc = 8, msg_value = 64, msg_channel = 0\<rparr> sample_controller
       = (sample_controller, [])
   \<and> weight (fst (cc_message_listener \<lparr>msg_cc = 7, msg_value = 0, msg_channel = 0\<rparr> sample_controller)) = 0
   \<and> weight (fst (cc_message_listener \<lparr>msg_cc = 7, msg_value = 127, msg_channel = 0\<rparr> sample_controller)) = 2"
  using cc_message_sets_weight [of sample_controller "\<lparr>msg_cc = 7, msg_value = 64, msg_channel = 0\<rparr>"]
        cc_message_sets_weight [of sample_controller "\<lparr>msg_cc = 8, msg_value = 64, msg_channel = 0\<rparr>"]
        cc_message_sets_weight [of sample_controller "\<lparr>msg_cc = 7, msg_value = 0, msg_channel = 0\<rparr>"]
        cc_message_sets_weight [of sample_controller "\<lparr>msg_cc = 7, msg_value = 127, msg_channel = 0\<rparr>"]
  by (simp add: sample_controller_def onmidimessage_def)

text \<open>
  C6. Every value a drag, a wheel event or a control change with a value in \<open>[0, 127]\<close>
  stores is in \<open>[0, 2]\<close>: the value of the knob after \<^verbatim>\<open>handlePointerMove\<close> and
  \<^verbatim>\<open>handleWheel\<close>, the weight the controller takes over from the knob, and the weight
  a control change on the bound number sets.
\<close>

theorem weight_stays_in_range:
  "0 \<le> knob_value (fst (handlePointerMove clientY k)) \<and> knob_value (fst (handlePointerMove clientY k)) \<le> 2
   \<and> 0 \<le> knob_value (fst (handleWheel deltaY k)) \<and> knob_value (fst (handleWheel deltaY k)) \<le> 2
   \<and> 0 \<le> weight (fst (knob_wheel deltaY c)) \<and> weight (fst (knob_wheel deltaY c)) \<le> 2
   \<and> (dragging (weightInput c) \<longrightarrow>
        0 \<le> weight (fst (knob_pointermove clientY c)) \<and> weight (fst (knob_pointermove clientY c)) \<le> 2)
   \<and> (\<not> learnMode c \<and> msg_cc e = cc c \<and> 0 \<le> msg_value e \<and> msg_value e \<le> 127 \<longrightarrow>
        0 \<le> weight (fst (cc_message_listener e c)) \<and> weight (fst (cc_message_listener e c)) \<le> 2)"
  by (simp add: handlePointerMove_def handleWheel_def knob_wheel_def knob_pointermove_def
      window_pointermove_def updateWeight_def cc_message_listener_def Let_def)

text \<open>
  A wheel event far up stops at 2 and one down at 0; a drag of 50 pixels upward from the
  value 0 gives 0.5, and one of 500 pixels stops at 2; the control change value 127
  gives 2.
\<close>

theorem weight_stays_in_range_witness:
  "knob_value (fst (handlePointerMove 50 (handlePointerDown 100 sample_knob))) = 1 / 2
   \<and> knob_value (fst (handlePointerMove (- 400) (handlePointerDown 100 sample_knob))) = 2
   \<and> knob_value (fst (handleWheel (- 4000) sample_knob)) = 2
   \<and> knob_value (fst (handleWheel 100 sample_knob)) = 0
   \<and> weight (fst (knob_wheel (- 4000)
        (sample_controller\<lparr>weightInput := handlePointerDown 100 sample_knob\<rparr>))) = 2
   \<and> dragging (weightInput (sample_controller\<lparr>weightInput := handlePointerDown 100 sample_knob\<rparr>))
   \<and> weight (fst (knob_pointermove 50
        (sample_controller\<lparr>weightInput := handlePointerDown 100 sample_knob\<rparr>))) = 1 / 2
   \<and> \<not> learnMode (sample_controller\<lparr>weightInput := handlePointerDown 100 sample_knob\<rparr>)
   \<and> weight (fst (cc_message_listener \<lparr>msg_cc = 7, msg_value = 127, msg_channel = 0\<rparr>
        (sample_controller\<lparr>weightInput := handlePointerDown 100 sample_knob\<rparr>))) = 2"
  using weight_stays_in_range [of 50 "handlePointerDown 100 sample_knob" "- 4000"
          "sample_controller\<lparr>weightInput := handlePointerDown 100 sample_knob\<rparr>"
          "\<lparr>msg_cc = 7, msg_value = 127, msg_channel = 0\<rparr>"]
  by (simp add: sample_controller_def sample_knob_def handlePointerDown_def handlePointerMove_def
      handleWheel_def knob_wheel_def knob_pointermove_def window_pointermove_def updateWeight_def
      cc_message_listener_def Let_def)

subsection \<open>Learn mode\<close>

text \<open>
  C7. A control change that reaches a controller in learn mode binds the controller to
  the number of the message, ends learn mode and dispatches exactly one
  \<^verbatim>\<open>prompt-changed\<close> event, which carries the weight the controller had; the weight is
  not changed.
\<close>

theorem learn_mode_rebinds:
  assumes "learnMode c"
  shows "cc_message_listener e c =
           (c\<lparr>cc := msg_cc e, channel := msg_channel e, learnMode := False\<rparr>,
            [\<lparr>promptId = promptId c, prompt_text = prompt_text c, weight = weight c,
              cc = msg_cc e, color = color c\<rparr>])
         \<and> weight (fst (cc_message_listener e c)) = weight c
         \<and> cc (fst (cc_message_listener e c)) = msg_cc e
         \<and> \<not> learnMode (fst (cc_message_listener e c))
         \<and> length (snd (cc_message_listener e c)) = 1"
  using assms by (simp add: cc_message_listener_def dispatchPromptChange_def)

text \<open>
  The first prompt, with weight 1 and bound to 0, learns control change 20 from a
  message with value 99: it is bound to 20, out of learn mode, and the event carries the
  weight 1.
\<close>

theorem learn_mode_rebinds_witness:
  "learnMode (other_controller\<lparr>learnMode := True\<rparr>)
   \<and> cc_message_listener \<lparr>msg_cc = 20, msg_value = 99, msg_channel = 3\<rparr>
        (other_controller\<lparr>learnMode := True\<rparr>)
       = (other_controller\<lparr>cc := 20, channel := 3\<rparr>,
          [\<lparr>promptId = ''prompt-0'', prompt_text = ''Lush Strings'', weight = 1, cc = 20,
            color = ''#3dffab''\<rparr>])"
  using learn_mode_rebinds [of "other_controller\<lparr>learnMode := True\<rparr>"
          "\<lparr>msg_cc = 20, msg_value = 99, msg_channel = 3\<rparr>"]
  by (simp add: other_controller_def)

text \<open>
  C2, as the code has it. Learn mode is a flag of each controller. A click that turns
  it on for controller \<open>b\<close> leaves \<open>b\<close> in learn mode and every other controller as it
  was: the controllers in learn mode afterward are \<open>b\<close> and those that were in it
  before. When none was, \<open>b\<close> is the only one.
\<close>

theorem click_midi_toggles_one_flag:
  assumes "b < length grid" and "\<not> learnMode (grid ! b)"
  shows "learnMode (click_midi b grid ! b)
         \<and> length (click_midi b grid) = length grid
         \<and> (\<forall>a < length grid. a \<noteq> b \<longrightarrow> click_midi b grid ! a = grid ! a)
         \<and> set (learning (click_midi b grid)) = insert b (set (learning grid))
         \<and> (learning grid = [] \<longrightarrow> learning (click_midi b grid) = [b])"
proof -
  have len: "length (click_midi b grid) = length grid"
    by (simp add: click_midi_def)
  have at_b: "learnMode (click_midi b grid ! b)"
    using assms by (simp add: click_midi_def toggleLearnMode_def)
  have others: "\<forall>a < length grid. a \<noteq> b \<longrightarrow> click_midi b grid ! a = grid ! a"
    using assms by (simp add: click_midi_def)
  have sets: "set (learning (click_midi b grid)) = insert b (set (learning grid))"
    unfolding learning_set len using assms at_b others by auto
  have single: "learning (click_midi b grid) = [b]" if "learning grid = []"
  proof -
    have "\<And>i. i < length grid \<Longrightarrow> learnMode (click_midi b grid ! i) = (i = b)"
    proof -
      fix i assume i: "i < length grid"
      have "i \<notin> set (learning grid)" using that by simp
      then have "\<not> learnMode (grid ! i)" using i by (simp add: learning_set)
      then show "learnMode (click_midi b grid ! i) = (i = b)"
        using at_b others i by auto
    qed
    then have "learning (click_midi b grid) = filter (\<lambda>i. i = b) [0 ..< length grid]"
      unfolding learning_def len by (intro filter_cong) auto
    also have "\<dots> = [b]"
    proof -
      have "[0 ..< length grid] = [0 ..< b] @ b # [Suc b ..< length grid]"
        using assms(1) by (metis le0 less_imp_le_nat upt_add_eq_append upt_conv_Cons le_add_diff_inverse)
      then show ?thesis by (auto simp: filter_empty_conv)
    qed
    finally show ?thesis .
  qed
  from len at_b others sets single show ?thesis by blast
qed

text \<open>
  With no controller in learn mode, a click on the second leaves exactly the second in
  it; with the first already in learn mode, the same click leaves both.
\<close>

theorem click_midi_toggles_one_flag_witness:
  "learning [sample_controller, other_controller] = []
   \<and> learning (click_midi 1 [sample_controller, other_controller]) = [1]
   \<and> set (learning (click_midi 1 [sample_controller\<lparr>learnMode := True\<rparr>, other_controller])) = {0, 1}"
  using click_midi_toggles_one_flag [of 1 "[sample_controller, other_controller]"]
        click_midi_toggles_one_flag [of 1 "[sample_controller\<lparr>learnMode := True\<rparr>, other_controller]"]
  by (simp add: learning_def sample_controller_def other_controller_def insert_commute)

text \<open>
  C2, as the claim states it, fails: with the first controller in learn mode, a click on
  the second controller's \<^verbatim>\<open>#midi\<close> element leaves both in learn mode.
\<close>

theorem two_knobs_learning:
  "learnMode ([sample_controller\<lparr>learnMode := True\<rparr>, other_controller] ! 0)
   \<and> \<not> learnMode ([sample_controller\<lparr>learnMode := True\<rparr>, other_controller] ! 1)
   \<and> learning (click_midi 1 [sample_controller\<lparr>learnMode := True\<rparr>, other_controller]) = [0, 1]"
  by (simp add: learning_def click_midi_def toggleLearnMode_def sample_controller_def
      other_controller_def)

subsection \<open>The halo\<close>

text \<open>
  C9. For a knob value in \<open>[0, 2]\<close> the scale of the rendered halo is
  \<open>MIN_HALO_SCALE + (value / 2) * (MAX_HALO_SCALE - MIN_HALO_SCALE) + audioLevel * HALO_LEVEL_MODIFIER\<close>
  with the constants 1, 2 and 1, and the halo is hidden (\<^verbatim>\<open>display: none\<close>) exactly when
  the value is 0.
\<close>

theorem halo_scale:
  assumes "0 \<le> knob_value k" and "knob_value k \<le> 2"
  shows "scale (WeightKnob_render k)
           = MIN_HALO_SCALE + (knob_value k / 2) * (MAX_HALO_SCALE - MIN_HALO_SCALE)
             + knob_audioLevel k * HALO_LEVEL_MODIFIER
         \<and> MIN_HALO_SCALE = 1 \<and> MAX_HALO_SCALE = 2 \<and> HALO_LEVEL_MODIFIER = 1
         \<and> (display (WeightKnob_render k) = ''none'') = (knob_value k = 0)
         \<and> (display (WeightKnob_render k) = ''block'') = (knob_value k \<noteq> 0)"
  using assms
  by (auto simp: WeightKnob_render_def MIN_HALO_SCALE_def MAX_HALO_SCALE_def HALO_LEVEL_MODIFIER_def)

text \<open>
  With a silent level, the knob at 0 hides its halo and the knob at 1 shows it at scale
  \<open>1.5\<close>; a level of \<open>0.25\<close> adds \<open>0.25\<close>.
\<close>

theorem halo_scale_witness:
  "display (WeightKnob_render sample_knob) = ''none''
   \<and> display (WeightKnob_render (sample_knob\<lparr>knob_value := 1\<rparr>)) = ''block''
   \<and> scale (WeightKnob_render (sample_knob\<lparr>knob_value := 1\<rparr>)) = 3 / 2
   \<and> scale (WeightKnob_render (sample_knob\<lparr>knob_value := 1, knob_audioLevel := 1 / 4\<rparr>)) = 7 / 4"
  using halo_scale [of sample_knob] halo_scale [of "sample_knob\<lparr>knob_value := 1\<rparr>"]
        halo_scale [of "sample_knob\<lparr>knob_value := 1, knob_audioLevel := 1 / 4\<rparr>"]
  by (simp add: sample_knob_def MIN_HALO_SCALE_def MAX_HALO_SCALE_def HALO_LEVEL_MODIFIER_def)

subsection \<open>Committing a text\<close>

text \<open>
  C10. On blur, a text that is missing, empty or all white space puts the last valid
  text back and leaves it the last valid text; any other text is stored trimmed, and
  the trimmed text becomes the last valid text. In both cases exactly one
  \<^verbatim>\<open>prompt-changed\<close> event is dispatched, with the text now stored.
\<close>

theorem blur_commits_text:
  "(textContent c = None \<or> (\<exists>s. textContent c = Some s \<and> list_all isWhiteSpace s) \<longrightarrow>
      prompt_text (fst (updateText c)) = lastValidText c
      \<and> lastValidText (fst (updateText c)) = lastValidText c)
   \<and> (\<forall>s. textContent c = Some s \<and> \<not> list_all isWhiteSpace s \<longrightarrow>
      trim s \<noteq> []
      \<and> prompt_text (fst (updateText c)) = trim s
      \<and> lastValidText (fst (updateText c)) = trim s)
   \<and> snd (updateText c) =
       [\<lparr>promptId = promptId c, prompt_text = prompt_text (fst (updateText c)), weight = weight c,
         cc = cc c, color = color c\<rparr>]"
proof (cases "textContent c")
  case None
  then show ?thesis by (simp add: updateText_def resetText_def dispatchPromptChange_def)
next
  case (Some s)
  show ?thesis
  proof (cases "list_all isWhiteSpace s")
    case True
    then have "trim s = []" by (simp add: trim_empty_iff)
    with Some True show ?thesis
      by (simp add: updateText_def resetText_def dispatchPromptChange_def)
  next
    case False
    then have "trim s \<noteq> []" by (simp add: trim_empty_iff)
    with Some False show ?thesis
      by (simp add: updateText_def resetText_def dispatchPromptChange_def)
  qed
qed

text \<open>
  Three blanks restore \<^verbatim>\<open>Glassy FM Synthesis\<close>; \<^verbatim>\<open>" Harp "\<close> stores \<^verbatim>\<open>Harp\<close>; each
  dispatches one event.
\<close>

theorem blur_commits_text_witness:
  "prompt_text (fst (updateText (sample_controller\<lparr>textContent := Some ''   ''\<rparr>))) = ''Glassy FM Synthesis''
   \<and> lastValidText (fst (updateText (sample_controller\<lparr>textContent := Some ''   ''\<rparr>))) = ''Glassy FM Synthesis''
   \<and> length (snd (updateText (sample_controller\<lparr>textContent := Some ''   ''\<rparr>))) = 1
   \<and> prompt_text (fst (updateText (sample_controller\<lparr>textContent := Some '' Harp ''\<rparr>))) = ''Harp''
   \<and> lastValidText (fst (updateText (sample_controller\<lparr>textContent := Some '' Harp ''\<rparr>))) = ''Harp''
   \<and> snd (updateText (sample_controller\<lparr>textContent := Some '' Harp ''\<rparr>)) =
       [\<lparr>promptId = ''prompt-7'', prompt_text = ''Harp'', weight = 0, cc = 7, color = ''#d9b2ff''\<rparr>]"
  using blur_commits_text [of "sample_controller\<lparr>textContent := Some ''   ''\<rparr>"]
        blur_commits_text [of "sample_controller\<lparr>textContent := Some '' Harp ''\<rparr>"]
  by (simp add: sample_controller_def isWhiteSpace_def trim_def)

subsection \<open>Presets\<close>

text \<open>
  C1 fails on the code. \<^verbatim>\<open>saveCurrentPreset\<close> stores \<^verbatim>\<open>new Map(this.prompts)\<close>, a new map
  with the same prompt objects, and \<^verbatim>\<open>handlePromptChanged\<close> writes into the prompt
  object itself. After saving the registry as \<^verbatim>\<open>Mine\<close>, the saved preset holds the first
  prompt with weight 1; after a \<^verbatim>\<open>prompt-changed\<close> event with weight 2 for that prompt,
  the saved preset holds it with weight 2, and so does the default preset the registry
  was loaded from.
\<close>

theorem saved_preset_shares_prompt_objects:
  "map_option (entries_of (objects (saveCurrentPreset nts (Some ''Mine'') False sample_state)))
     (Map_get (presets (saveCurrentPreset nts (Some ''Mine'') False sample_state)) ''Mine'')
     = Some [(''prompt-0'', sample_prompt)]
   \<and> map_option
       (entries_of (objects (handlePromptChanged (sample_prompt\<lparr>weight := 2\<rparr>)
                               (saveCurrentPreset nts (Some ''Mine'') False sample_state))))
       (Map_get (presets (handlePromptChanged (sample_prompt\<lparr>weight := 2\<rparr>)
                            (saveCurrentPreset nts (Some ''Mine'') False sample_state))) ''Mine'')
     = Some [(''prompt-0'', sample_prompt\<lparr>weight := 2\<rparr>)]
   \<and> map_option
       (entries_of (objects (handlePromptChanged (sample_prompt\<lparr>weight := 2\<rparr>)
                               (saveCurrentPreset nts (Some ''Mine'') False sample_state))))
       (Map_get (presets (handlePromptChanged (sample_prompt\<lparr>weight := 2\<rparr>)
                            (saveCurrentPreset nts (Some ''Mine'') False sample_state)))
          ''Ambient Dreams'')
     = Some [(''prompt-0'', sample_prompt\<lparr>weight := 2\<rparr>)]
   \<and> sample_prompt\<lparr>weight := 2\<rparr> \<noteq> sample_prompt"
  by (simp add: saveCurrentPreset_def savePresetsToStorage_def handlePromptChanged_def
      sample_state_def sample_defaults_def sample_prompt_def entries_of_def
      Map_get_def Map_has_def new_Map_def trim_def isWhiteSpace_def Let_def)

text \<open>
  C4, as the code has it. \<^verbatim>\<open>handlePresetChange\<close> raises no error. For a name that is
  not in the store it leaves the registry, the prompt objects, the store and the
  dispatched events as they were: nothing is loaded. For a name in the store it makes
  that name the active one, replaces the registry by a new map of the preset's entries
  and dispatches exactly one \<^verbatim>\<open>prompts-changed\<close> event, with that registry.
\<close>

theorem handlePresetChange_effect:
  "(Map_get (presets s) name = None \<longrightarrow>
      prompts (handlePresetChange name s) = prompts s
      \<and> objects (handlePresetChange name s) = objects s
      \<and> presets (handlePresetChange name s) = presets s
      \<and> events (handlePresetChange name s) = events s)
   \<and> (\<forall>m. Map_get (presets s) name = Some m \<longrightarrow>
        handlePresetChange name s =
          s\<lparr>activePresetName := Some name, prompts := new_Map m,
            events := events s @ [PromptsChanged (new_Map m)]\<rparr>)"
  by (simp add: handlePresetChange_def loadActivePreset_def)

text \<open>
  In the sample component, \<^verbatim>\<open>Nope\<close> is not a preset and \<^verbatim>\<open>Ambient Dreams\<close> is the active
  one: switching to the first leaves the registry and the one event of the start,
  switching to the second adds one event.
\<close>

theorem handlePresetChange_effect_witness:
  "Map_get (presets sample_state) ''Nope'' = None
   \<and> prompts (handlePresetChange ''Nope'' sample_state) = [(''prompt-0'', 0)]
   \<and> events (handlePresetChange ''Nope'' sample_state) = [PromptsChanged [(''prompt-0'', 0)]]
   \<and> Map_get (presets sample_state) ''Ambient Dreams'' = Some [(''prompt-0'', 0)]
   \<and> handlePresetChange ''Ambient Dreams'' sample_state =
       sample_state\<lparr>events := [PromptsChanged [(''prompt-0'', 0)], PromptsChanged [(''prompt-0'', 0)]]\<rparr>"
  using handlePresetChange_effect [of sample_state "''Nope''"]
        handlePresetChange_effect [of sample_state "''Ambient Dreams''"]
  by (simp add: sample_state_def sample_defaults_def Map_get_def new_Map_def)

text \<open>
  C4, as the claim states it, fails: switching to the absent name \<^verbatim>\<open>Nope\<close> changes the
  active preset name from \<^verbatim>\<open>Ambient Dreams\<close> to \<^verbatim>\<open>Nope\<close>.
\<close>

theorem switch_to_absent_changes_active_name:
  "Map_get (presets sample_state) ''Nope'' = None
   \<and> activePresetName sample_state = Some ''Ambient Dreams''
   \<and> activePresetName (handlePresetChange ''Nope'' sample_state) = Some ''Nope''"
  by (simp add: handlePresetChange_def loadActivePreset_def sample_state_def sample_defaults_def
      Map_get_def)

text \<open>
  C3 fails on the code. \<^verbatim>\<open>loadPresets\<close> calls \<^verbatim>\<open>deserializePresets\<close> on every stored
  text that is not empty, outside any \<^verbatim>\<open>try\<close>. On the stored text \<^verbatim>\<open>{\<close> the call of
  \<^verbatim>\<open>JSON.parse\<close> throws a \<^verbatim>\<open>SyntaxError\<close>, and on \<^verbatim>\<open>{"a":5}\<close> the call \<^verbatim>\<open>new Map(5)\<close> throws
  a \<^verbatim>\<open>TypeError\<close>, whatever the default presets are; the store of the component is then
  still the empty map of its construction.
\<close>

theorem malformed_blob_throws:
  "loadPresets (PromptDjMidi_new heap (Some ''{'') defaults) = Inl SyntaxError
   \<and> loadPresets (PromptDjMidi_new heap (Some ''{\"a\":5}'') defaults) = Inl TypeError
   \<and> presets (PromptDjMidi_new heap (Some ''{'') defaults) = []"
  by (simp add: loadPresets_def PromptDjMidi_new_def deserializePresets_def read_Map_def json_eval
      Let_def)

text \<open>
  C8 fails on the code. \<^verbatim>\<open>serializePresets\<close> collects the presets in a plain object by
  \<^verbatim>\<open>obj[name] = ...\<close>. For the preset name \<^verbatim>\<open>__proto__\<close> this assignment sets the
  prototype of the object and adds no property, so the text is \<^verbatim>\<open>{}\<close> and reading it
  back gives no preset, whatever the prompts of the preset are. Saving the registry
  under that name puts the preset into the store and writes \<^verbatim>\<open>{}\<close> to the storage.
\<close>

theorem proto_preset_lost:
  "serializePresets nts heap [(''__proto__'', m)] = ''{}''
   \<and> deserializePresets heap (serializePresets nts heap [(''__proto__'', m)]) = Inr (heap, [])
   \<and> Map_get (presets (saveCurrentPreset nts (Some ''__proto__'') False sample_state)) ''__proto__''
       = Some [(''prompt-0'', 0)]
   \<and> localStorage (saveCurrentPreset nts (Some ''__proto__'') False sample_state) = Some ''{}''"
  by (simp add: serializePresets_def assign_property_def deserializePresets_def json_eval
      saveCurrentPreset_def savePresetsToStorage_def sample_state_def sample_defaults_def
      Map_get_def Map_has_def trim_def isWhiteSpace_def Let_def)

end
